theory Spec2Isabelle
  imports Main
begin

section \<open>Python values, strings and errors\<close>

text \<open>
  The alarm builder of \<^verbatim>\<open>build_alarm_config/app.py\<close> handles untyped values: a tag value
  is \<^verbatim>\<open>Any\<close>, a stored threshold is a number or a string. \<open>pyval\<close> covers the scalars
  that reach \<^verbatim>\<open>str(...)\<close>. Strings are byte strings; \<open>lower\<close> is Python's
  \<^verbatim>\<open>str.lower\<close> on the ASCII letters.

  What the model fixes by its types: a field of the event is a string when it has a value
  (a flag for \<^verbatim>\<open>cloudwatch\<close>); a dimension dict has no key besides \<^verbatim>\<open>Name\<close> and
  \<^verbatim>\<open>Value\<close>, and both are strings. An exception is a value \<open>Inl e\<close> of the result.
  The catalog and the remote services are parameters of the functions that call them.
\<close>

datatype pyval = VNone | VBool bool | VInt int | VStr string

datatype error = KeyError string | ClientError string | TimeoutError

text \<open>
  A key of a dict: absent, present with the value \<^verbatim>\<open>None\<close> (a JSON null), or present
  with a value. The stage before this one writes \<^verbatim>\<open>None\<close> for what it could not
  determine, so the two differ on real events: \<^verbatim>\<open>event['k']\<close> raises for an absent key
  only, and an f-string prints a null as \<^verbatim>\<open>None\<close>.
\<close>

datatype 'a field = Missing | Null | Present 'a

definition digit_char :: "nat \<Rightarrow> char" where
  "digit_char d = char_of (48 + d)"

function show_nat :: "nat \<Rightarrow> string" where
  "show_nat n = (if n < 10 then [digit_char n] else show_nat (n div 10) @ [digit_char (n mod 10)])"
  by pat_completeness auto
termination
  by (relation "measure (\<lambda>n. n)") auto

definition show_int :: "int \<Rightarrow> string" where
  "show_int i = (if i < 0 then CHR ''-'' # show_nat (nat (- i)) else show_nat (nat i))"

fun py_str :: "pyval \<Rightarrow> string" where
  "py_str VNone = ''None''"
| "py_str (VBool b) = (if b then ''True'' else ''False'')"
| "py_str (VInt i) = show_int i"
| "py_str (VStr s) = s"

definition lower_char :: "char \<Rightarrow> char" where
  "lower_char c =
     (let n = (of_char c :: nat) in if 65 \<le> n \<and> n \<le> 90 then char_of (n + 32) else c)"

definition lower :: "string \<Rightarrow> string" where
  "lower s = map lower_char s"

text \<open>\<^verbatim>\<open>s.split(":")\<close>: the pieces between the separators, \<open>['''']\<close> for the empty string.\<close>

definition split :: "char \<Rightarrow> string \<Rightarrow> string list" where
  "split c s = foldr (\<lambda>x acc. if x = c then [] # acc else (x # hd acc) # tl acc) s [[]]"

section \<open>Data model\<close>

text \<open>
  An entry of \<^verbatim>\<open>table_item.thresholds\<close> is a dict (keys \<^verbatim>\<open>priority\<close>,
  \<^verbatim>\<open>threshold\<close>, \<^verbatim>\<open>criticality\<close>, each possibly missing), a list or tuple, or
  anything else.
\<close>

datatype tier =
    TDict (t_priority: "pyval option") (t_threshold: "pyval option") (t_criticality: "pyval option")
  | TSeq "pyval list"
  | TOther pyval

text \<open>A dimension dict, with the keys \<^verbatim>\<open>Name\<close> and \<^verbatim>\<open>Value\<close>, each possibly missing.\<close>

record dimension =
  Name :: "string option"
  Value :: "string option"

datatype dim_entry = DictEntry dimension | OtherEntry pyval

text \<open>\<^verbatim>\<open>AlarmConfigTable\<close>, the catalog record.\<close>

record table_item =
  tbl_namespace :: string
  tbl_alarm_description :: string
  tbl_comparison_operator :: string
  tbl_actions_enabled :: bool
  tbl_thresholds :: "tier list"
  tbl_dimensions :: "dim_entry list"
  tbl_datapoints_to_alarm :: int
  tbl_evaluation_periods :: int
  tbl_period :: int
  tbl_treat_missing_data :: string
  tbl_statistic :: "string option"

text \<open>
  The event dict. \<^verbatim>\<open>metadata\<close> and \<^verbatim>\<open>detail.tags\<close> are dicts, empty when the key is
  absent, as \<^verbatim>\<open>event.get(..., {})\<close> gives. The tags keep their insertion order, which is
  the order \<^verbatim>\<open>tags.items()\<close> iterates in.
\<close>

record event =
  ev_account :: "string field"
  ev_region :: "string field"
  ev_account_alias :: "string field"
  ev_service :: "string field"
  ev_resource_type :: "string field"
  ev_resource_id :: "string field"
  ev_identifier :: "string field"
  ev_cloudwatch :: "bool field"
  ev_metadata :: "(string \<times> string) list"
  ev_tags :: "(string \<times> pyval) list"

text \<open>The alarm definition \<^verbatim>\<open>item\<close> that \<^verbatim>\<open>get_table_item\<close> builds.\<close>

record alarm =
  priority :: string
  metric :: string
  service :: string
  threshold :: pyval
  criticality :: pyval
  actions_enabled :: bool
  comparison_operator :: string
  datapoints_to_alarm :: int
  dimensions :: "dimension list"
  evaluation_periods :: int
  namespace :: string
  period :: int
  statistic :: "string option"
  treat_missing_data :: string
  alarm_description :: string
  alarm_name :: string
  action_topic_arn :: "string list"

text \<open>The environment variables \<^verbatim>\<open>ec2_linux_disk_tag\<close> and \<^verbatim>\<open>ec2_windows_disk_tag\<close>.\<close>

record config =
  EC2LINUXDISK_TAG :: "string option"
  EC2WINDOWSDISK_TAG :: "string option"

type_synonym disk = "(string \<times> string) list"

type_synonym catalog = "string \<Rightarrow> string \<Rightarrow> table_item option"

section \<open>Threshold tiers\<close>

text \<open>
  One pass of the loop over \<^verbatim>\<open>table_item.thresholds\<close> in \<^verbatim>\<open>get_table_item\<close>. The
  state is \<^verbatim>\<open>item["threshold"]\<close> and \<^verbatim>\<open>item.get("criticality")\<close>.
\<close>

fun apply_threshold_entry :: "string \<Rightarrow> tier \<Rightarrow> pyval \<times> pyval option \<Rightarrow> pyval \<times> pyval option" where
  "apply_threshold_entry priority_token (TDict p th cr) (thr, crit) =
     (if p = Some (VStr priority_token) then
        (let thr' = (case th of
                       Some v \<Rightarrow> if lower (py_str thr) = ''true'' then v else thr
                     | None \<Rightarrow> thr);
             crit' = (case cr of Some c \<Rightarrow> Some c | None \<Rightarrow> crit)
         in (thr', crit'))
      else (thr, crit))"
| "apply_threshold_entry priority_token (TSeq (prio # v # rest)) (thr, crit) =
     (if prio = VStr priority_token \<and> lower (py_str thr) = ''true'' then
        (v, (case crit of None \<Rightarrow> Some (VStr priority_token) | Some c \<Rightarrow> Some c))
      else (thr, crit))"
| "apply_threshold_entry priority_token (TSeq _) (thr, crit) = (thr, crit)"
| "apply_threshold_entry priority_token (TOther _) (thr, crit) = (thr, crit)"

definition apply_thresholds :: "string \<Rightarrow> pyval \<Rightarrow> tier list \<Rightarrow> pyval \<times> pyval" where
  "apply_thresholds priority_token tag_value ths =
     (case fold (apply_threshold_entry priority_token) ths (tag_value, None) of
        (thr, crit) \<Rightarrow> (thr, (case crit of None \<Rightarrow> VStr priority_token | Some c \<Rightarrow> c)))"

section \<open>Dimensions\<close>

text \<open>The loop over \<^verbatim>\<open>item["dimensions"]\<close> that builds \<^verbatim>\<open>new_dimensions\<close>.\<close>

definition bind_dimension :: "string \<Rightarrow> string \<Rightarrow> (string \<times> string) list \<Rightarrow> dimension \<Rightarrow> dimension" where
  "bind_dimension identifier resource_id metadata dim =
     (if Name dim = Some identifier then dim\<lparr>Value := Some resource_id\<rparr>
      else (case Name dim of
              None \<Rightarrow> dim
            | Some n \<Rightarrow> (case map_of metadata n of
                          Some v \<Rightarrow> dim\<lparr>Value := Some v\<rparr>
                        | None \<Rightarrow> dim)))"

fun bind_dimensions :: "string \<Rightarrow> string \<Rightarrow> (string \<times> string) list \<Rightarrow> dim_entry list \<Rightarrow> dimension list" where
  "bind_dimensions identifier resource_id metadata [] = []"
| "bind_dimensions identifier resource_id metadata (OtherEntry _ # ds) =
     bind_dimensions identifier resource_id metadata ds"
| "bind_dimensions identifier resource_id metadata (DictEntry dim # ds) =
     (let dim' = bind_dimension identifier resource_id metadata dim in
      if Value dim' \<noteq> None
      then dim' # bind_dimensions identifier resource_id metadata ds
      else bind_dimensions identifier resource_id metadata ds)"

definition is_disk_metric :: "config \<Rightarrow> string \<Rightarrow> bool" where
  "is_disk_metric cfg m \<longleftrightarrow> Some m = EC2LINUXDISK_TAG cfg \<or> Some m = EC2WINDOWSDISK_TAG cfg"

definition disk_dimensions :: "config \<Rightarrow> string \<Rightarrow> disk option \<Rightarrow> dimension list" where
  "disk_dimensions cfg m disk =
     (case disk of
        None \<Rightarrow> []
      | Some d \<Rightarrow> if d \<noteq> [] \<and> is_disk_metric cfg m
                  then map (\<lambda>(k, v). \<lparr>Name = Some k, Value = Some v\<rparr>) d
                  else [])"

section \<open>Name and route\<close>

text \<open>
  \<^verbatim>\<open>next((dim["Value"] for dim in dims if dim.get("Name") in target_names), None)\<close>:
  the value of the first dimension named \<^verbatim>\<open>path\<close> or \<^verbatim>\<open>LogicalDisk\<close>; reading the
  value of a dimension that has none raises.
\<close>

definition target_names :: "string list" where
  "target_names = [''path'', ''LogicalDisk'']"

fun found_value :: "dimension list \<Rightarrow> error + string option" where
  "found_value [] = Inr None"
| "found_value (dim # dims) =
     (case Name dim of
        None \<Rightarrow> found_value dims
      | Some n \<Rightarrow>
          if n \<in> set target_names
          then (case Value dim of None \<Rightarrow> Inl (KeyError ''Value'') | Some v \<Rightarrow> Inr (Some v))
          else found_value dims)"

text \<open>
  \<^verbatim>\<open>event.get(key, '')\<close> inside an f-string: the default for an absent key, and
  \<^verbatim>\<open>str\<close> of the value otherwise, which for a null is \<^verbatim>\<open>None\<close>.
\<close>

definition get_or_empty :: "string field \<Rightarrow> string" where
  "get_or_empty x = (case x of Missing \<Rightarrow> [] | Null \<Rightarrow> ''None'' | Present s \<Rightarrow> s)"

text \<open>
  \<^verbatim>\<open>event[key]\<close> inside an f-string: a key error for an absent key, and \<^verbatim>\<open>str\<close> of
  the value otherwise.
\<close>

definition subscript_str :: "string \<Rightarrow> string field \<Rightarrow> error + string" where
  "subscript_str key x =
     (case x of Missing \<Rightarrow> Inl (KeyError key) | Null \<Rightarrow> Inr ''None'' | Present s \<Rightarrow> Inr s)"

definition name_prefix :: "event \<Rightarrow> alarm \<Rightarrow> string" where
  "name_prefix ev item =
     get_or_empty (ev_account_alias ev) @ ''-'' @ get_or_empty (ev_account ev) @ ''-'' @
     get_or_empty (ev_service ev) @ ''-'' @ get_or_empty (ev_resource_type ev) @ ''-'' @
     get_or_empty (ev_resource_id ev) @ ''-'' @ metric item @ ''-''"

definition build_alarm_name :: "event \<Rightarrow> alarm \<Rightarrow> error + string" where
  "build_alarm_name ev item =
     (case found_value (dimensions item) of
        Inl e \<Rightarrow> Inl e
      | Inr fv \<Rightarrow>
          (case fv of
             Some v \<Rightarrow>
               if v \<noteq> []
               then Inr (name_prefix ev item @ [CHR 0x27] @ v @ [CHR 0x27] @ ''-'' @
                         ''Severity: '' @ py_str (criticality item))
               else Inr (name_prefix ev item @ ''Severity: '' @ py_str (criticality item))
           | None \<Rightarrow> Inr (name_prefix ev item @ ''Severity: '' @ py_str (criticality item))))"

definition build_action_topic_arn :: "event \<Rightarrow> alarm \<Rightarrow> error + string list" where
  "build_action_topic_arn ev item =
     (case subscript_str ''region'' (ev_region ev) of
        Inl e \<Rightarrow> Inl e
      | Inr r \<Rightarrow>
          (case subscript_str ''account'' (ev_account ev) of
             Inl e \<Rightarrow> Inl e
           | Inr a \<Rightarrow>
               Inr [''arn:aws:sns:'' @ r @ '':'' @ a @
                    '':Rebura-CentralisedObservabilityAutomationTopic'' @ priority item @
                    ''-'' @ r]))"

section \<open>Resolving one signal\<close>

text \<open>
  \<^verbatim>\<open>load_table_item\<close> reads the catalog and turns every failure into \<^verbatim>\<open>None\<close>; the
  catalog is a function of the composite key.
\<close>

definition load_table_item :: "catalog \<Rightarrow> string \<Rightarrow> string \<Rightarrow> table_item option" where
  "load_table_item cat service_name m = cat service_name m"

definition base_item ::
  "config \<Rightarrow> table_item \<Rightarrow> string \<Rightarrow> string \<Rightarrow> string \<Rightarrow> pyval \<Rightarrow> string \<Rightarrow> string \<Rightarrow>
   event \<Rightarrow> disk option \<Rightarrow> alarm" where
  "base_item cfg ti svc m priority_token tag_value identifier resource_id ev disk =
     \<lparr> priority = priority_token,
       metric = m,
       service = svc,
       threshold = fst (apply_thresholds priority_token tag_value (tbl_thresholds ti)),
       criticality = snd (apply_thresholds priority_token tag_value (tbl_thresholds ti)),
       actions_enabled = tbl_actions_enabled ti,
       comparison_operator = tbl_comparison_operator ti,
       datapoints_to_alarm = tbl_datapoints_to_alarm ti,
       dimensions = bind_dimensions identifier resource_id (ev_metadata ev) (tbl_dimensions ti)
                    @ disk_dimensions cfg m disk,
       evaluation_periods = tbl_evaluation_periods ti,
       namespace = tbl_namespace ti,
       period = tbl_period ti,
       statistic = tbl_statistic ti,
       treat_missing_data = tbl_treat_missing_data ti,
       alarm_description = tbl_alarm_description ti,
       alarm_name = [],
       action_topic_arn = [] \<rparr>"

definition get_table_item ::
  "config \<Rightarrow> catalog \<Rightarrow> string \<Rightarrow> string \<Rightarrow> string \<Rightarrow> pyval \<Rightarrow> string \<Rightarrow> string \<Rightarrow>
   event \<Rightarrow> disk option \<Rightarrow> error + alarm option" where
  "get_table_item cfg cat svc m priority_token tag_value identifier resource_id ev disk =
     (case load_table_item cat svc m of
        None \<Rightarrow> Inr None
      | Some ti \<Rightarrow>
          (let item = base_item cfg ti svc m priority_token tag_value identifier resource_id ev disk in
           case build_alarm_name ev item of
             Inl e \<Rightarrow> Inl e
           | Inr n \<Rightarrow>
               (case build_action_topic_arn ev (item\<lparr>alarm_name := n\<rparr>) of
                  Inl e \<Rightarrow> Inl e
                | Inr arn \<Rightarrow> Inr (Some (item\<lparr>alarm_name := n, action_topic_arn := arn\<rparr>)))))"

section \<open>Building the alarm list\<close>

text \<open>The entries of \<^verbatim>\<open>disk_meta_data\<close>.\<close>

record disk_meta =
  dm_service :: string
  dm_metric :: string
  dm_priority_token :: string
  dm_tag_value :: pyval

text \<open>
  The first loop of \<^verbatim>\<open>get_alarms\<close>, over \<^verbatim>\<open>tags.items()\<close>, with the lists
  \<^verbatim>\<open>alarms\<close> and \<^verbatim>\<open>disk_meta_data\<close> as state. An exception leaves the loop.
\<close>

fun tag_loop ::
  "config \<Rightarrow> catalog \<Rightarrow> string \<Rightarrow> string \<Rightarrow> event \<Rightarrow> (string \<times> pyval) list \<Rightarrow>
   alarm list \<Rightarrow> disk_meta list \<Rightarrow> error + (alarm list \<times> disk_meta list)" where
  "tag_loop cfg cat identifier resource_id ev [] alarms dmd = Inr (alarms, dmd)"
| "tag_loop cfg cat identifier resource_id ev ((tag_key, tag_value) # rest) alarms dmd =
     (let parts = split CHR '':'' tag_key in
      if length parts < 3 then tag_loop cfg cat identifier resource_id ev rest alarms dmd
      else
        (let svc = parts ! (length parts - 3);
             m = parts ! (length parts - 2);
             priority_token = parts ! (length parts - 1) in
         if priority_token \<notin> {''P1'', ''P2'', ''P3''}
         then tag_loop cfg cat identifier resource_id ev rest alarms dmd
         else if is_disk_metric cfg m
         then tag_loop cfg cat identifier resource_id ev rest alarms
                (dmd @ [\<lparr>dm_service = svc, dm_metric = m,
                         dm_priority_token = priority_token, dm_tag_value = tag_value\<rparr>])
         else
           (case get_table_item cfg cat svc m priority_token tag_value identifier resource_id ev None of
              Inl e \<Rightarrow> Inl e
            | Inr None \<Rightarrow> tag_loop cfg cat identifier resource_id ev rest alarms dmd
            | Inr (Some a) \<Rightarrow> tag_loop cfg cat identifier resource_id ev rest (alarms @ [a]) dmd)))"

text \<open>The inner loop of the second phase: every disk signal, for one disk.\<close>

fun meta_loop ::
  "config \<Rightarrow> catalog \<Rightarrow> string \<Rightarrow> string \<Rightarrow> event \<Rightarrow> disk \<Rightarrow> disk_meta list \<Rightarrow>
   alarm list \<Rightarrow> error + alarm list" where
  "meta_loop cfg cat identifier resource_id ev d [] alarms = Inr alarms"
| "meta_loop cfg cat identifier resource_id ev d (md # rest) alarms =
     (case get_table_item cfg cat (dm_service md) (dm_metric md) (dm_priority_token md)
             (dm_tag_value md) identifier resource_id ev (Some d) of
        Inl e \<Rightarrow> Inl e
      | Inr None \<Rightarrow> meta_loop cfg cat identifier resource_id ev d rest alarms
      | Inr (Some a) \<Rightarrow> meta_loop cfg cat identifier resource_id ev d rest (alarms @ [a]))"

fun disk_loop ::
  "config \<Rightarrow> catalog \<Rightarrow> string \<Rightarrow> string \<Rightarrow> event \<Rightarrow> disk_meta list \<Rightarrow> disk list \<Rightarrow>
   alarm list \<Rightarrow> error + alarm list" where
  "disk_loop cfg cat identifier resource_id ev dmd [] alarms = Inr alarms"
| "disk_loop cfg cat identifier resource_id ev dmd (d # ds) alarms =
     (case meta_loop cfg cat identifier resource_id ev d dmd alarms of
        Inl e \<Rightarrow> Inl e
      | Inr alarms' \<Rightarrow> disk_loop cfg cat identifier resource_id ev dmd ds alarms')"

text \<open>
  \<^verbatim>\<open>not event.get(key)\<close> for a string field: the key is absent, or its value is
  \<^verbatim>\<open>None\<close> or the empty string.
\<close>

definition falsy :: "string field \<Rightarrow> bool" where
  "falsy x \<longleftrightarrow> x = Missing \<or> x = Null \<or> x = Present []"

definition get_alarms :: "config \<Rightarrow> catalog \<Rightarrow> event \<Rightarrow> disk list \<Rightarrow> error + alarm list" where
  "get_alarms cfg cat ev disks =
     (if falsy (ev_identifier ev) \<or> falsy (ev_resource_id ev) then Inr []
      else
        (case (ev_identifier ev, ev_resource_id ev) of
           (Present identifier, Present resource_id) \<Rightarrow>
             (case tag_loop cfg cat identifier resource_id ev (ev_tags ev) [] [] of
                Inl e \<Rightarrow> Inl e
              | Inr (alarms, dmd) \<Rightarrow>
                  disk_loop cfg cat identifier resource_id ev dmd disks alarms)
         | _ \<Rightarrow> Inr []))"

section \<open>Disk discovery\<close>

text \<open>
  The remote services. \<open>describe_platform\<close> is the \<^verbatim>\<open>Platform\<close> entry of the first
  instance that \<^verbatim>\<open>describe_instances\<close> returns, when it has one. \<open>send_command\<close> gives
  the command id. \<open>get_command_invocation\<close> depends on the seconds slept since the command
  was sent: time passes in \<^verbatim>\<open>time.sleep\<close> only. The instance id is the value of
  \<^verbatim>\<open>event['resource_id']\<close>, a string or \<^verbatim>\<open>None\<close>.
\<close>

record invocation =
  Status :: string
  StandardOutputContent :: "string option"

record aws =
  describe_platform :: "string option \<Rightarrow> error + string option"
  send_command :: "string option \<Rightarrow> string \<Rightarrow> string \<Rightarrow> error + string"
  get_command_invocation :: "string \<Rightarrow> string option \<Rightarrow> nat \<Rightarrow> error + invocation"

definition get_os_type :: "aws \<Rightarrow> string option \<Rightarrow> string option" where
  "get_os_type session instance_id =
     (case describe_platform session instance_id of
        Inl _ \<Rightarrow> None
      | Inr platform \<Rightarrow> Some (if platform = Some ''windows'' then ''Windows'' else ''Linux''))"

text \<open>The ASCII part of what Python counts as a line boundary and as white space.\<close>

definition is_linebreak :: "char \<Rightarrow> bool" where
  "is_linebreak c \<longleftrightarrow> (of_char c :: nat) \<in> {10, 11, 12, 13, 28, 29, 30}"

definition is_space :: "char \<Rightarrow> bool" where
  "is_space c \<longleftrightarrow> (of_char c :: nat) \<in> {9, 10, 11, 12, 13, 28, 29, 30, 31, 32}"

fun lines_from :: "string \<Rightarrow> string \<Rightarrow> string list" where
  "lines_from cur [] = (if cur = [] then [] else [cur])"
| "lines_from cur (c # cs) =
     (if c = CHR 0x0D then
        (case cs of
           [] \<Rightarrow> [cur]
         | d # ds \<Rightarrow> if d = CHR 0x0A then cur # lines_from [] ds else cur # lines_from [] cs)
      else if is_linebreak c then cur # lines_from [] cs
      else lines_from (cur @ [c]) cs)"

definition splitlines :: "string \<Rightarrow> string list" where
  "splitlines s = lines_from [] s"

definition strip :: "string \<Rightarrow> string" where
  "strip s = rev (dropWhile is_space (rev (dropWhile is_space s)))"

fun words_from :: "string \<Rightarrow> string \<Rightarrow> string list" where
  "words_from cur [] = (if cur = [] then [] else [cur])"
| "words_from cur (c # cs) =
     (if is_space c then (if cur = [] then words_from [] cs else cur # words_from [] cs)
      else words_from (cur @ [c]) cs)"

definition split_ws :: "string \<Rightarrow> string list" where
  "split_ws s = words_from [] s"

definition basename :: "string \<Rightarrow> string" where
  "basename p = rev (takeWhile (\<lambda>c. c \<noteq> CHR ''/'') (rev p))"

text \<open>The loop over \<^verbatim>\<open>result.splitlines()\<close>.\<close>

fun parse_lines :: "string \<Rightarrow> string list \<Rightarrow> disk list" where
  "parse_lines os_type [] = []"
| "parse_lines os_type (l # ls) =
     (let line = strip l in
      if line = [] then parse_lines os_type ls
      else if lower os_type = ''linux'' then
        (case split_ws line of
           device_full # fstype # path # _ \<Rightarrow>
             [(''device'', basename device_full), (''fstype'', fstype), (''path'', path)]
             # parse_lines os_type ls
         | _ \<Rightarrow> parse_lines os_type ls)
      else [(''LogicalDisk'', line)] # parse_lines os_type ls)"

definition linux_cmd :: string where
  "linux_cmd = ''df -T -P | tail -n +2 | awk '' @ [CHR 0x27] @ ''{print $1,$2,$7}'' @ [CHR 0x27]"

definition windows_cmd :: string where
  "windows_cmd = ''Get-PSDrive -PSProvider FileSystem | ForEach-Object { $_.Name }''"

text \<open>
  \<^verbatim>\<open>discover_disks\<close>: send the command, sleep five seconds, read the invocation once and
  parse its output. Every exception gives the empty list.
\<close>

definition discover_disks :: "aws \<Rightarrow> string option \<Rightarrow> string \<Rightarrow> disk list" where
  "discover_disks session instance_id os_type =
     (let cmd = (if lower os_type = ''linux'' then linux_cmd else windows_cmd);
          doc_name = (if lower os_type = ''linux'' then ''AWS-RunShellScript''
                      else ''AWS-RunPowerShellScript'') in
      case send_command session instance_id doc_name cmd of
        Inl _ \<Rightarrow> []
      | Inr cmd_id \<Rightarrow>
          (case get_command_invocation session cmd_id instance_id 5 of
             Inl _ \<Rightarrow> []
           | Inr output \<Rightarrow>
               parse_lines os_type
                 (splitlines (case StandardOutputContent output of None \<Rightarrow> [] | Some r \<Rightarrow> r))))"

section \<open>The handler\<close>

text \<open>
  The sweep of \<^verbatim>\<open>lambda_handler\<close> over the dimensions of one alarm:
  \<^verbatim>\<open>for dimension in alarm["dimensions"]\<close> visits position \<open>i\<close> of the list as it is at
  that moment, and \<^verbatim>\<open>remove\<close> deletes the first element equal to its argument.
\<close>

function sweep :: "nat \<Rightarrow> dimension list \<Rightarrow> error + dimension list" where
  "sweep i ds =
     (if i < length ds then
        (let dimension = ds ! i in
         case Name dimension of
           None \<Rightarrow> Inl (KeyError ''Name'')
         | Some n \<Rightarrow>
             (case Value dimension of
                None \<Rightarrow> Inl (KeyError ''Value'')
              | Some v \<Rightarrow> if n = v then sweep (Suc i) (remove1 dimension ds)
                          else sweep (Suc i) ds))
      else Inr ds)"
  by pat_completeness auto
termination
  by (relation "measure (\<lambda>(i, ds). length ds - i)") (auto simp: length_remove1)

fun sweep_alarms :: "alarm list \<Rightarrow> error + alarm list" where
  "sweep_alarms [] = Inr []"
| "sweep_alarms (a # as) =
     (case sweep 0 (dimensions a) of
        Inl e \<Rightarrow> Inl e
      | Inr ds \<Rightarrow>
          (case sweep_alarms as of
             Inl e \<Rightarrow> Inl e
           | Inr as' \<Rightarrow> Inr (a\<lparr>dimensions := ds\<rparr> # as')))"

text \<open>
  \<^verbatim>\<open>event[key]\<close> as a value: a key error for an absent key, \<^verbatim>\<open>None\<close> for a null.
\<close>

definition subscript :: "string \<Rightarrow> 'a field \<Rightarrow> error + 'a option" where
  "subscript key x =
     (case x of Missing \<Rightarrow> Inl (KeyError key) | Null \<Rightarrow> Inr None | Present v \<Rightarrow> Inr (Some v))"

text \<open>
  The condition \<^verbatim>\<open>event['service'] == 'ec2' and event['resource_type'] == 'instance' and
  event['cloudwatch'] == True\<close>, read from left to right; an absent key raises, and a
  null equals neither string nor \<^verbatim>\<open>True\<close>.
\<close>

definition wants_disks :: "event \<Rightarrow> error + bool" where
  "wants_disks ev =
     (case subscript ''service'' (ev_service ev) of
        Inl e \<Rightarrow> Inl e
      | Inr s \<Rightarrow>
          if s \<noteq> Some ''ec2'' then Inr False
          else (case subscript ''resource_type'' (ev_resource_type ev) of
                  Inl e \<Rightarrow> Inl e
                | Inr t \<Rightarrow>
                    if t \<noteq> Some ''instance'' then Inr False
                    else (case subscript ''cloudwatch'' (ev_cloudwatch ev) of
                            Inl e \<Rightarrow> Inl e
                          | Inr c \<Rightarrow> Inr (c = Some True))))"

definition handler_disks :: "aws \<Rightarrow> event \<Rightarrow> error + disk list" where
  "handler_disks session ev =
     (case wants_disks ev of
        Inl e \<Rightarrow> Inl e
      | Inr False \<Rightarrow> Inr []
      | Inr True \<Rightarrow>
          (case subscript ''resource_id'' (ev_resource_id ev) of
             Inl e \<Rightarrow> Inl e
           | Inr rid \<Rightarrow>
               (case get_os_type session rid of
                  None \<Rightarrow> Inr []
                | Some os_type \<Rightarrow> Inr (discover_disks session rid os_type))))"

text \<open>
  \<^verbatim>\<open>lambda_handler\<close>, after the role has been assumed; the result is
  \<^verbatim>\<open>event['alarm_config']\<close>.
\<close>

definition lambda_handler :: "config \<Rightarrow> catalog \<Rightarrow> aws \<Rightarrow> event \<Rightarrow> error + alarm list" where
  "lambda_handler cfg cat session ev =
     (case handler_disks session ev of
        Inl e \<Rightarrow> Inl e
      | Inr disks \<Rightarrow>
          (case get_alarms cfg cat ev disks of
             Inl e \<Rightarrow> Inl e
           | Inr alarms \<Rightarrow> sweep_alarms alarms))"

section \<open>Matching tiers\<close>

text \<open>
  When an entry of \<^verbatim>\<open>thresholds\<close> is for the priority token: the tests
  \<^verbatim>\<open>t.get("priority") == priority_token\<close> and \<^verbatim>\<open>prio == priority_token\<close> of the loop.
\<close>

fun tier_matches :: "string \<Rightarrow> tier \<Rightarrow> bool" where
  "tier_matches priority_token (TDict p th cr) = (p = Some (VStr priority_token))"
| "tier_matches priority_token (TSeq (prio # v # rest)) = (prio = VStr priority_token)"
| "tier_matches priority_token (TSeq _) = False"
| "tier_matches priority_token (TOther _) = False"

section \<open>Example inputs\<close>

text \<open>Three records of \<^verbatim>\<open>seed_dynamodb/app.py\<close> and an event for an EC2 instance.\<close>

definition seed_thresholds :: "tier list" where
  "seed_thresholds =
     [TDict (Some (VStr ''P1'')) (Some (VInt 95)) (Some (VStr ''Critical'')),
      TDict (Some (VStr ''P2'')) (Some (VInt 90)) (Some (VStr ''High'')),
      TDict (Some (VStr ''P3'')) (Some (VInt 80)) (Some (VStr ''Low''))]"

definition placeholder :: "string \<Rightarrow> dim_entry" where
  "placeholder n = DictEntry \<lparr>Name = Some n, Value = Some n\<rparr>"

definition cpu_template :: table_item where
  "cpu_template =
     \<lparr> tbl_namespace = ''AWS/EC2'',
       tbl_alarm_description = ''Triggered when CPU exceeds thresholds or becomes unreachable'',
       tbl_comparison_operator = ''GreaterThanThreshold'',
       tbl_actions_enabled = True,
       tbl_thresholds = seed_thresholds,
       tbl_dimensions = [placeholder ''InstanceId''],
       tbl_datapoints_to_alarm = 15,
       tbl_evaluation_periods = 15,
       tbl_period = 60,
       tbl_treat_missing_data = ''breaching'',
       tbl_statistic = Some ''Average'' \<rparr>"

definition mem_template :: table_item where
  "mem_template =
     cpu_template \<lparr> tbl_namespace := ''CWAgent'',
       tbl_alarm_description := ''Linux memory usage exceeds thresholds'',
       tbl_dimensions := [placeholder ''InstanceId'', placeholder ''InstanceType'',
                          placeholder ''ImageId'', placeholder ''AutoScalingGroup''] \<rparr>"

definition disk_template :: table_item where
  "disk_template =
     mem_template \<lparr> tbl_alarm_description := ''Linux disk usage exceeds thresholds'' \<rparr>"

definition seed_catalog :: catalog where
  "seed_catalog svc m =
     (if svc = ''EC2'' \<and> m = ''CPUUtilization'' then Some cpu_template
      else if svc = ''EC2'' \<and> m = ''mem_used_percent'' then Some mem_template
      else if svc = ''EC2'' \<and> m = ''disk_used_percent'' then Some disk_template
      else None)"

definition seed_config :: config where
  "seed_config =
     \<lparr> EC2LINUXDISK_TAG = Some ''disk_used_percent'',
       EC2WINDOWSDISK_TAG = Some ''LogicalDisk % Free Space'' \<rparr>"

definition base_event :: event where
  "base_event =
     \<lparr> ev_account = Present ''111122223333'', ev_region = Present ''eu-west-1'',
       ev_account_alias = Present ''acme'', ev_service = Present ''ec2'',
       ev_resource_type = Present ''instance'', ev_resource_id = Present ''i-123'',
       ev_identifier = Present ''InstanceId'', ev_cloudwatch = Present False,
       ev_metadata = [],
       ev_tags = [(''Org:Monitor:EC2:CPUUtilization:P1'', VStr ''true'')] \<rparr>"

text \<open>Two tag keys with the same last three segments, and a tag for the memory metric.\<close>

definition dup_event :: event where
  "dup_event =
     base_event \<lparr> ev_tags := [(''Org:Monitor:EC2:CPUUtilization:P1'', VStr ''true''),
                              (''Team:Monitor:EC2:CPUUtilization:P1'', VStr ''true'')] \<rparr>"

definition mem_event :: event where
  "mem_event =
     base_event \<lparr> ev_tags := [(''Org:Monitor:EC2:mem_used_percent:P1'', VStr ''true'')] \<rparr>"

text \<open>A session whose every remote call fails.\<close>

definition offline :: aws where
  "offline =
     \<lparr> describe_platform = (\<lambda>_. Inl (ClientError ''describe_instances'')),
       send_command = (\<lambda>_ _ _. Inl (ClientError ''send_command'')),
       get_command_invocation = (\<lambda>_ _ _. Inl (ClientError ''InvocationDoesNotExist'')) \<rparr>"


section \<open>The name format, as the specification words it\<close>

text \<open>
  The specification's format of the alarm name, for comparison with
  \<^verbatim>\<open>build_alarm_name\<close>: the segments joined by hyphens, the quoted disk qualifier after
  the metric when there is one, and the severity last. A field absent from the event
  stands as an empty segment, a null field as \<open>None\<close>.
\<close>

definition spec_alarm_name :: "event \<Rightarrow> alarm \<Rightarrow> string option \<Rightarrow> string" where
  "spec_alarm_name ev item qualifier =
     get_or_empty (ev_account_alias ev) @ ''-'' @ get_or_empty (ev_account ev) @ ''-'' @
     get_or_empty (ev_service ev) @ ''-'' @ get_or_empty (ev_resource_type ev) @ ''-'' @
     get_or_empty (ev_resource_id ev) @ ''-'' @ metric item @
     (case qualifier of None \<Rightarrow> [] | Some q \<Rightarrow> ''-'' @ [CHR 0x27] @ q @ [CHR 0x27]) @
     ''-Severity: '' @ py_str (criticality item)"

definition is_disk_dimension :: "dimension \<Rightarrow> bool" where
  "is_disk_dimension d \<longleftrightarrow> Name d = Some ''path'' \<or> Name d = Some ''LogicalDisk''"

text \<open>
  The qualifier of a dimension list: the value of the first dimension named
  \<^verbatim>\<open>path\<close> or \<^verbatim>\<open>LogicalDisk\<close>, when that value is not empty.
\<close>

definition disk_qualifier :: "dimension list \<Rightarrow> string option" where
  "disk_qualifier dims =
     (case filter is_disk_dimension dims of
        [] \<Rightarrow> None
      | d # _ \<Rightarrow> if Value d = Some [] then None else Value d)"

text \<open>A record with a dimension named \<^verbatim>\<open>path\<close>, and an event that binds it to the empty string.\<close>

definition path_template :: table_item where
  "path_template =
     cpu_template \<lparr> tbl_dimensions := [placeholder ''InstanceId'', placeholder ''path''] \<rparr>"

definition path_catalog :: catalog where
  "path_catalog svc m =
     (if svc = ''EC2'' \<and> m = ''disk_free'' then Some path_template else None)"

definition empty_path_event :: event where
  "empty_path_event = base_event \<lparr> ev_metadata := [(''path'', [])] \<rparr>"

text \<open>
  A discovered Linux disk, a record with a dimension of a fixed value, and an event
  without region.
\<close>

definition data_disk :: disk where
  "data_disk = [(''device'', ''xvda1''), (''fstype'', ''ext4''), (''path'', ''/data'')]"

definition literal_template :: table_item where
  "literal_template =
     cpu_template \<lparr> tbl_dimensions :=
       [placeholder ''InstanceId'', DictEntry \<lparr>Name = Some ''Currency'', Value = Some ''USD''\<rparr>] \<rparr>"

definition literal_catalog :: catalog where
  "literal_catalog svc m =
     (if svc = ''EC2'' \<and> m = ''Charges'' then Some literal_template else None)"

definition literal_event :: event where
  "literal_event = base_event \<lparr> ev_tags := [(''Org:Monitor:EC2:Charges:P1'', VStr ''true'')] \<rparr>"




definition typed_event :: event where
  "typed_event = mem_event \<lparr> ev_metadata := [(''InstanceType'', ''t3.micro'')] \<rparr>"


text \<open>
  A record whose only tier is a list of priority, threshold and criticality; an event with
  a tag for the record that has the dimension \<^verbatim>\<open>path\<close>; an event whose region and
  account are null; and the disk event without a value for the identifier.
\<close>

definition triple_template :: table_item where
  "triple_template =
     cpu_template \<lparr> tbl_thresholds := [TSeq [VStr ''P1'', VInt 95, VStr ''Critical'']] \<rparr>"

definition triple_catalog :: catalog where
  "triple_catalog svc m =
     (if svc = ''EC2'' \<and> m = ''CPUUtilization'' then Some triple_template else None)"

definition path_event :: event where
  "path_event = base_event \<lparr> ev_tags := [(''Org:Monitor:EC2:disk_free:P1'', VStr ''true'')] \<rparr>"


section \<open>Disk signals\<close>


text \<open>An event with a CPU tag and a disk tag, and a second discovered disk.\<close>

definition disk_event :: event where
  "disk_event =
     base_event \<lparr> ev_cloudwatch := Present True,
                  ev_tags := [(''Org:Monitor:EC2:CPUUtilization:P1'', VStr ''true''),
                              (''Org:Monitor:EC2:disk_used_percent:P2'', VStr ''true'')] \<rparr>"



section \<open>Waiting for a command\<close>

text \<open>
  \<^verbatim>\<open>wait_for_command\<close> of \<^verbatim>\<open>configure_ec2/app.py\<close>. The clock counts the seconds
  since the command was sent and advances in \<^verbatim>\<open>time.sleep(poll)\<close> only, so a poll
  interval of zero never reaches the deadline: the loop may not return, and the result is
  an option.
\<close>

partial_function (option) wait_loop ::
  "aws \<Rightarrow> string \<Rightarrow> string option \<Rightarrow> nat \<Rightarrow> nat \<Rightarrow> nat \<Rightarrow>
   (error + invocation) option" where
  "wait_loop ssm command_id instance_id deadline poll now =
     (if now < deadline then
        (case get_command_invocation ssm command_id instance_id now of
           Inl e \<Rightarrow>
             if e = ClientError ''InvocationDoesNotExist''
             then wait_loop ssm command_id instance_id deadline poll (now + poll)
             else Some (Inl e)
         | Inr resp \<Rightarrow>
             if Status resp = ''Success'' then Some (Inr resp)
             else if Status resp \<in> {''Failed'', ''Cancelled'', ''TimedOut''} then Some (Inr resp)
             else wait_loop ssm command_id instance_id deadline poll (now + poll))
      else Some (Inl TimeoutError))"

definition wait_for_command ::
  "aws \<Rightarrow> string \<Rightarrow> string option \<Rightarrow> nat \<Rightarrow> nat \<Rightarrow> (error + invocation) option" where
  "wait_for_command ssm command_id instance_id timeout poll =
     wait_loop ssm command_id instance_id (0 + timeout) poll 0"

text \<open>
  A Linux instance whose command is still running after five seconds and has succeeded,
  with one file system listed, after ten.
\<close>

definition slow_session :: aws where
  "slow_session =
     \<lparr> describe_platform = (\<lambda>_. Inr None),
       send_command = (\<lambda>_ _ _. Inr ''cmd-1''),
       get_command_invocation =
         (\<lambda>_ _ t. if t < 10
                   then Inr \<lparr>Status = ''InProgress'', StandardOutputContent = Some []\<rparr>
                   else Inr \<lparr>Status = ''Success'',
                             StandardOutputContent =
                               Some (''/dev/xvda1 ext4 /data'' @ [CHR 0x0A])\<rparr>) \<rparr>"

section \<open>Threshold and criticality of a resolved candidate\<close>

lemma entry_no_match:
  "\<not> tier_matches tok t \<Longrightarrow> apply_threshold_entry tok t st = st"
  by (cases "(tok, t, st)" rule: apply_threshold_entry.cases) auto

lemma fold_no_match:
  "\<forall>t\<in>set ths. \<not> tier_matches tok t \<Longrightarrow> fold (apply_threshold_entry tok) ths st = st"
  by (induction ths arbitrary: st) (simp_all add: entry_no_match)

lemma apply_thresholds_unique:
  assumes "ths = pre @ t # post"
    and "\<forall>t'\<in>set (pre @ post). \<not> tier_matches tok t'"
  shows "apply_thresholds tok raw ths =
           (case apply_threshold_entry tok t (raw, None) of
              (thr, crit) \<Rightarrow> (thr, (case crit of None \<Rightarrow> VStr tok | Some c \<Rightarrow> c)))"
  using assms by (simp add: apply_thresholds_def fold_no_match)

lemma get_table_item_fields:
  assumes "get_table_item cfg cat svc m tok raw ident rid ev disk = Inr (Some item)"
    and "cat svc m = Some ti"
  shows "threshold item = fst (apply_thresholds tok raw (tbl_thresholds ti))"
    and "criticality item = snd (apply_thresholds tok raw (tbl_thresholds ti))"
  using assms
  by (auto simp: get_table_item_def load_table_item_def base_item_def Let_def
           split: sum.splits)

lemma lower_TRUE: "lower ''TRUE'' = ''true''"
  by code_simp

lemma lower_80: "lower ''80'' \<noteq> ''true''"
  by code_simp

lemma seed_cpu: "seed_catalog ''EC2'' ''CPUUtilization'' = Some cpu_template"
  by (simp add: seed_catalog_def)

lemma seed_cpu_tiers:
  "tbl_thresholds cpu_template =
     [] @ TDict (Some (VStr ''P1'')) (Some (VInt 95)) (Some (VStr ''Critical'')) #
     [TDict (Some (VStr ''P2'')) (Some (VInt 90)) (Some (VStr ''High'')),
      TDict (Some (VStr ''P3'')) (Some (VInt 80)) (Some (VStr ''Low''))]"
  by (simp add: cpu_template_def seed_thresholds_def)

lemma seed_cpu_others:
  "\<forall>t\<in>set ([] @ [TDict (Some (VStr ''P2'')) (Some (VInt 90)) (Some (VStr ''High'')),
                   TDict (Some (VStr ''P3'')) (Some (VInt 80)) (Some (VStr ''Low''))]).
     \<not> tier_matches ''P1'' t"
  by simp

lemma triple_cpu: "triple_catalog ''EC2'' ''CPUUtilization'' = Some triple_template"
  by (simp add: triple_catalog_def)

lemma triple_tiers:
  "tbl_thresholds triple_template = [] @ TSeq [VStr ''P1'', VInt 95, VStr ''Critical''] # []"
  by (simp add: triple_template_def cpu_template_def)

lemma cpu_candidate_exists:
  "\<exists>item. get_table_item seed_config seed_catalog ''EC2'' ''CPUUtilization'' ''P1'' raw
            ''InstanceId'' ''i-123'' base_event None = Inr (Some item)"
  by (simp add: get_table_item_def load_table_item_def seed_catalog_def Let_def
        build_alarm_name_def build_action_topic_arn_def subscript_str_def base_item_def
        base_event_def cpu_template_def placeholder_def bind_dimension_def
        disk_dimensions_def target_names_def split: sum.splits option.splits)

lemma triple_candidate_exists:
  "\<exists>item. get_table_item seed_config triple_catalog ''EC2'' ''CPUUtilization'' ''P1'' raw
            ''InstanceId'' ''i-123'' base_event None = Inr (Some item)"
  by (simp add: get_table_item_def load_table_item_def triple_catalog_def Let_def
        build_alarm_name_def build_action_topic_arn_def subscript_str_def base_item_def
        base_event_def triple_template_def cpu_template_def placeholder_def
        bind_dimension_def disk_dimensions_def target_names_def
        split: sum.splits option.splits)

text \<open>
  Without the invariant the loop mixes the tiers: of two tiers for one priority the first
  gives the threshold and the last the criticality.
\<close>

lemma duplicate_tiers_mix:
  "apply_thresholds ''P1'' (VStr ''true'')
     [TDict (Some (VStr ''P1'')) (Some (VInt 95)) (Some (VStr ''Critical'')),
      TDict (Some (VStr ''P1'')) (Some (VInt 90)) (Some (VStr ''High''))] =
     (VInt 95, VStr ''High'')"
  by code_simp

text \<open>
  C1 as stated fails for a tier stored as a list: with the tier
  \<open>[P1, 95, Critical]\<close> and the tag value \<open>TRUE\<close> the candidate takes the threshold
  \<open>95\<close>, and its criticality is the token \<open>P1\<close>, not the tier's \<open>Critical\<close>.
\<close>

theorem list_tier_criticality_counterexample:
  "tbl_thresholds triple_template = [TSeq [VStr ''P1'', VInt 95, VStr ''Critical'']] \<and>
   lower (py_str (VStr ''TRUE'')) = ''true'' \<and>
   map_sum id (map_option threshold)
     (get_table_item seed_config triple_catalog ''EC2'' ''CPUUtilization'' ''P1'' (VStr ''TRUE'')
        ''InstanceId'' ''i-123'' base_event None) = Inr (Some (VInt 95)) \<and>
   map_sum id (map_option criticality)
     (get_table_item seed_config triple_catalog ''EC2'' ''CPUUtilization'' ''P1'' (VStr ''TRUE'')
        ''InstanceId'' ''i-123'' base_event None) = Inr (Some (VStr ''P1'')) \<and>
   VStr ''P1'' \<noteq> VStr ''Critical''"
  by code_simp

text \<open>
  C1, amended. When exactly one tier of the template is for the signal's priority token
  and the lower-cased tag value is \<open>true\<close>: for a tier stored as a record the candidate's
  threshold is the tier's stored threshold and its criticality is the tier's criticality
  (the tag value and the token where the record lacks the field); for a tier stored as a
  list or tuple the threshold is its second element and the criticality is the priority
  token, whatever else the list holds.
\<close>

theorem tier_default_resolution:
  assumes "cat svc m = Some ti"
    and "tbl_thresholds ti = pre @ t # post"
    and "tier_matches tok t"
    and "\<forall>t'\<in>set (pre @ post). \<not> tier_matches tok t'"
    and "lower (py_str raw) = ''true''"
    and "get_table_item cfg cat svc m tok raw ident rid ev disk = Inr (Some item)"
  shows "(\<forall>th cr. t = TDict (Some (VStr tok)) th cr \<longrightarrow>
            threshold item = (case th of Some v \<Rightarrow> v | None \<Rightarrow> raw) \<and>
            criticality item = (case cr of Some c \<Rightarrow> c | None \<Rightarrow> VStr tok)) \<and>
         (\<forall>v rest. t = TSeq (VStr tok # v # rest) \<longrightarrow>
            threshold item = v \<and> criticality item = VStr tok)"
  using get_table_item_fields [OF assms(6) assms(1)]
        apply_thresholds_unique [OF assms(2) assms(4), of raw] assms(5)
  by (auto split: option.splits)

theorem tier_default_resolution_witness:
  "lower (py_str (VStr ''TRUE'')) = ''true'' \<and>
   map_sum id (map_option threshold)
     (get_table_item seed_config seed_catalog ''EC2'' ''CPUUtilization'' ''P1'' (VStr ''TRUE'')
        ''InstanceId'' ''i-123'' base_event None) = Inr (Some (VInt 95)) \<and>
   map_sum id (map_option criticality)
     (get_table_item seed_config seed_catalog ''EC2'' ''CPUUtilization'' ''P1'' (VStr ''TRUE'')
        ''InstanceId'' ''i-123'' base_event None) = Inr (Some (VStr ''Critical'')) \<and>
   map_sum id (map_option threshold)
     (get_table_item seed_config triple_catalog ''EC2'' ''CPUUtilization'' ''P1'' (VStr ''TRUE'')
        ''InstanceId'' ''i-123'' base_event None) = Inr (Some (VInt 95)) \<and>
   map_sum id (map_option criticality)
     (get_table_item seed_config triple_catalog ''EC2'' ''CPUUtilization'' ''P1'' (VStr ''TRUE'')
        ''InstanceId'' ''i-123'' base_event None) = Inr (Some (VStr ''P1''))"
proof -
  have h: "lower (py_str (VStr ''TRUE'')) = ''true''"
    by (simp add: lower_TRUE)
  obtain item where g:
    "get_table_item seed_config seed_catalog ''EC2'' ''CPUUtilization'' ''P1'' (VStr ''TRUE'')
       ''InstanceId'' ''i-123'' base_event None = Inr (Some item)"
    using cpu_candidate_exists by blast
  obtain item' where g':
    "get_table_item seed_config triple_catalog ''EC2'' ''CPUUtilization'' ''P1'' (VStr ''TRUE'')
       ''InstanceId'' ''i-123'' base_event None = Inr (Some item')"
    using triple_candidate_exists by blast
  have m: "tier_matches ''P1'' (TDict (Some (VStr ''P1'')) (Some (VInt 95)) (Some (VStr ''Critical'')))"
    by simp
  have m': "tier_matches ''P1'' (TSeq [VStr ''P1'', VInt 95, VStr ''Critical''])"
    by simp
  have none: "\<forall>t'\<in>set ([] @ []). \<not> tier_matches ''P1'' t'"
    by simp
  from tier_default_resolution [of seed_catalog, OF seed_cpu seed_cpu_tiers m seed_cpu_others h g]
  have a: "threshold item = VInt 95 \<and> criticality item = VStr ''Critical''"
    by simp
  from tier_default_resolution [of triple_catalog, OF triple_cpu triple_tiers m' none h g']
  have b: "threshold item' = VInt 95 \<and> criticality item' = VStr ''P1''"
    by simp
  from a b h g g' show ?thesis by simp
qed

text \<open>
  C2 as stated fails: with the tag value \<open>80\<close> on a P1 signal the candidate keeps the
  threshold \<open>80\<close>, and its criticality is the label of the P1 tier, not the token \<open>P1\<close>.
\<close>

theorem literal_override_criticality_counterexample:
  "map_sum id (map_option criticality)
     (get_table_item seed_config seed_catalog ''EC2'' ''CPUUtilization'' ''P1'' (VStr ''80'')
        ''InstanceId'' ''i-123'' base_event None) = Inr (Some (VStr ''Critical'')) \<and>
   VStr ''Critical'' \<noteq> VStr ''P1''"
  by code_simp

text \<open>
  C2, amended. When exactly one tier of the template is for the signal's priority token
  and the lower-cased tag value is not \<open>true\<close>, the candidate's threshold is the tag value
  itself. Its criticality is the priority token itself when the tier is stored as a list or
  tuple, or as a record without a criticality; it is the tier's criticality when the tier is
  a record that stores one.
\<close>

theorem literal_override_resolution:
  assumes "cat svc m = Some ti"
    and "tbl_thresholds ti = pre @ t # post"
    and "tier_matches tok t"
    and "\<forall>t'\<in>set (pre @ post). \<not> tier_matches tok t'"
    and "lower (py_str raw) \<noteq> ''true''"
    and "get_table_item cfg cat svc m tok raw ident rid ev disk = Inr (Some item)"
  shows "threshold item = raw \<and>
         (\<forall>th cr. t = TDict (Some (VStr tok)) th cr \<longrightarrow>
            criticality item = (case cr of Some c \<Rightarrow> c | None \<Rightarrow> VStr tok)) \<and>
         (\<forall>v rest. t = TSeq (VStr tok # v # rest) \<longrightarrow> criticality item = VStr tok)"
proof -
  from assms(3) consider (dict) th cr where "t = TDict (Some (VStr tok)) th cr"
    | (seq) v rest where "t = TSeq (VStr tok # v # rest)"
    by (cases "(tok, t)" rule: tier_matches.cases) auto
  then show ?thesis
  proof cases
    case dict
    with get_table_item_fields [OF assms(6) assms(1)]
         apply_thresholds_unique [OF assms(2) assms(4), of raw] assms(5)
    show ?thesis by (auto split: option.splits)
  next
    case seq
    with get_table_item_fields [OF assms(6) assms(1)]
         apply_thresholds_unique [OF assms(2) assms(4), of raw] assms(5)
    show ?thesis by auto
  qed
qed

theorem literal_override_resolution_witness:
  "lower (py_str (VStr ''80'')) \<noteq> ''true'' \<and>
   map_sum id (map_option threshold)
     (get_table_item seed_config seed_catalog ''EC2'' ''CPUUtilization'' ''P1'' (VStr ''80'')
        ''InstanceId'' ''i-123'' base_event None) = Inr (Some (VStr ''80'')) \<and>
   map_sum id (map_option criticality)
     (get_table_item seed_config seed_catalog ''EC2'' ''CPUUtilization'' ''P1'' (VStr ''80'')
        ''InstanceId'' ''i-123'' base_event None) = Inr (Some (VStr ''Critical'')) \<and>
   map_sum id (map_option threshold)
     (get_table_item seed_config triple_catalog ''EC2'' ''CPUUtilization'' ''P1'' (VStr ''80'')
        ''InstanceId'' ''i-123'' base_event None) = Inr (Some (VStr ''80'')) \<and>
   map_sum id (map_option criticality)
     (get_table_item seed_config triple_catalog ''EC2'' ''CPUUtilization'' ''P1'' (VStr ''80'')
        ''InstanceId'' ''i-123'' base_event None) = Inr (Some (VStr ''P1''))"
proof -
  have h: "lower (py_str (VStr ''80'')) \<noteq> ''true''"
    by (simp add: lower_80)
  obtain item where g:
    "get_table_item seed_config seed_catalog ''EC2'' ''CPUUtilization'' ''P1'' (VStr ''80'')
       ''InstanceId'' ''i-123'' base_event None = Inr (Some item)"
    using cpu_candidate_exists by blast
  obtain item' where g':
    "get_table_item seed_config triple_catalog ''EC2'' ''CPUUtilization'' ''P1'' (VStr ''80'')
       ''InstanceId'' ''i-123'' base_event None = Inr (Some item')"
    using triple_candidate_exists by blast
  have m: "tier_matches ''P1'' (TDict (Some (VStr ''P1'')) (Some (VInt 95)) (Some (VStr ''Critical'')))"
    by simp
  have m': "tier_matches ''P1'' (TSeq [VStr ''P1'', VInt 95, VStr ''Critical''])"
    by simp
  have none: "\<forall>t'\<in>set ([] @ []). \<not> tier_matches ''P1'' t'"
    by simp
  from literal_override_resolution [of seed_catalog, OF seed_cpu seed_cpu_tiers m seed_cpu_others h g]
  have a: "threshold item = VStr ''80'' \<and> criticality item = VStr ''Critical''"
    by simp
  from literal_override_resolution [of triple_catalog, OF triple_cpu triple_tiers m' none h g']
  have b: "threshold item' = VStr ''80'' \<and> criticality item' = VStr ''P1''"
    by simp
  from a b h g g' show ?thesis by simp
qed

section \<open>The alarm list\<close>



text \<open>
  C3. Two tag keys that end in the same service, metric and priority give two candidates
  with one and the same alarm name: \<^verbatim>\<open>get_alarms\<close> appends every candidate and never
  consults its set \<^verbatim>\<open>seen\<close>.
\<close>

theorem duplicate_names_are_kept:
  "map_sum id (map alarm_name) (get_alarms seed_config seed_catalog dup_event []) =
     Inr [''acme-111122223333-ec2-instance-i-123-CPUUtilization-Severity: Critical'',
          ''acme-111122223333-ec2-instance-i-123-CPUUtilization-Severity: Critical'']"
  by code_simp

text \<open>
  C4. For the memory record of the seed data the handler's sweep removes
  \<^verbatim>\<open>InstanceType\<close> and \<^verbatim>\<open>AutoScalingGroup\<close> and steps over \<^verbatim>\<open>ImageId\<close>, whose
  value is still its name in the emitted candidate.
\<close>

theorem sweep_skips_a_placeholder:
  "map_sum id (map dimensions) (lambda_handler seed_config seed_catalog offline mem_event) =
     Inr [[\<lparr>Name = Some ''InstanceId'', Value = Some ''i-123''\<rparr>,
           \<lparr>Name = Some ''ImageId'', Value = Some ''ImageId''\<rparr>]]"
  by code_simp

section \<open>Dimensions and name of a resolved candidate\<close>

lemma bind_dimensions_set:
  "set (bind_dimensions ident rid md ds) =
     {bind_dimension ident rid md d | d.
        DictEntry d \<in> set ds \<and> Value (bind_dimension ident rid md d) \<noteq> None}"
  by (induction ident rid md ds rule: bind_dimensions.induct) (auto simp: Let_def)

lemma bind_dimensions_values:
  "d \<in> set (bind_dimensions ident rid md ds) \<Longrightarrow> Value d \<noteq> None"
  by (auto simp: bind_dimensions_set)

lemma disk_dimensions_values:
  "d \<in> set (disk_dimensions cfg m disk) \<Longrightarrow> Value d \<noteq> None"
  by (auto simp: disk_dimensions_def split: option.splits if_splits)

lemma base_item_values:
  "d \<in> set (dimensions (base_item cfg ti svc m tok raw ident rid ev disk)) \<Longrightarrow> Value d \<noteq> None"
  by (auto simp: base_item_def dest: bind_dimensions_values disk_dimensions_values)

lemma found_value_filter:
  "\<forall>d\<in>set dims. Value d \<noteq> None \<Longrightarrow>
   found_value dims = Inr (case filter is_disk_dimension dims of [] \<Rightarrow> None | d # _ \<Rightarrow> Value d)"
  by (induction dims)
     (auto simp: is_disk_dimension_def target_names_def split: option.splits)

lemma build_alarm_name_spec:
  assumes "\<forall>d\<in>set (dimensions item). Value d \<noteq> None"
  shows "build_alarm_name ev item = Inr (spec_alarm_name ev item (disk_qualifier (dimensions item)))"
proof (cases "filter is_disk_dimension (dimensions item)")
  case Nil
  with found_value_filter [OF assms] show ?thesis
    by (simp add: build_alarm_name_def spec_alarm_name_def disk_qualifier_def name_prefix_def)
next
  case (Cons d rest)
  then have "d \<in> set (dimensions item)"
    by (metis filter_is_subset list.set_intros(1) subsetD)
  with assms obtain v where v: "Value d = Some v" by auto
  with Cons found_value_filter [OF assms] show ?thesis
    by (simp add: build_alarm_name_def spec_alarm_name_def disk_qualifier_def name_prefix_def)
qed

lemma get_table_item_result:
  assumes "get_table_item cfg cat svc m tok raw ident rid ev disk = Inr (Some item)"
    and "cat svc m = Some ti"
  shows "\<exists>n arn. item = (base_item cfg ti svc m tok raw ident rid ev disk)
                           \<lparr>alarm_name := n, action_topic_arn := arn\<rparr> \<and>
                 build_alarm_name ev (base_item cfg ti svc m tok raw ident rid ev disk) = Inr n"
  using assms
  by (auto simp: get_table_item_def load_table_item_def Let_def split: sum.splits)

lemma candidate_name:
  assumes "get_table_item cfg cat svc m tok raw ident rid ev disk = Inr (Some item)"
  shows "alarm_name item = spec_alarm_name ev item (disk_qualifier (dimensions item))"
proof -
  from assms obtain ti where ti: "cat svc m = Some ti"
    by (auto simp: get_table_item_def load_table_item_def split: option.splits)
  let ?b = "base_item cfg ti svc m tok raw ident rid ev disk"
  from get_table_item_result [OF assms ti] obtain n arn
    where item: "item = ?b\<lparr>alarm_name := n, action_topic_arn := arn\<rparr>"
      and n: "build_alarm_name ev ?b = Inr n"
    by blast
  have "\<forall>d\<in>set (dimensions ?b). Value d \<noteq> None"
    using base_item_values by blast
  from build_alarm_name_spec [OF this, of ev] n
  have "n = spec_alarm_name ev ?b (disk_qualifier (dimensions ?b))" by simp
  with item show ?thesis by (simp add: spec_alarm_name_def)
qed

text \<open>
  C5 as stated fails in both directions. A dimension named \<^verbatim>\<open>path\<close> that the metadata
  binds to the empty string is in the candidate's dimension list, and the name has no
  qualifier segment. A dimension named \<^verbatim>\<open>path\<close> that nothing binds still holds its
  name as value when the name is built: the name has the segment \<open>'path'\<close>, and the
  emitted candidate has no dimension named \<^verbatim>\<open>path\<close> or \<^verbatim>\<open>LogicalDisk\<close>.
\<close>

theorem empty_qualifier_counterexample:
  "map_sum id (map_option dimensions)
     (get_table_item seed_config path_catalog ''EC2'' ''disk_free'' ''P1'' (VStr ''true'')
        ''InstanceId'' ''i-123'' empty_path_event None) =
     Inr (Some [\<lparr>Name = Some ''InstanceId'', Value = Some ''i-123''\<rparr>,
                \<lparr>Name = Some ''path'', Value = Some []\<rparr>]) \<and>
   map_sum id (map_option alarm_name)
     (get_table_item seed_config path_catalog ''EC2'' ''disk_free'' ''P1'' (VStr ''true'')
        ''InstanceId'' ''i-123'' empty_path_event None) =
     Inr (Some ''acme-111122223333-ec2-instance-i-123-disk_free-Severity: Critical'') \<and>
   map_sum id (map dimensions) (lambda_handler seed_config path_catalog offline path_event) =
     Inr [[\<lparr>Name = Some ''InstanceId'', Value = Some ''i-123''\<rparr>]] \<and>
   map_sum id (map alarm_name) (lambda_handler seed_config path_catalog offline path_event) =
     Inr [''acme-111122223333-ec2-instance-i-123-disk_free-'' @ [CHR 0x27] @ ''path'' @
          [CHR 0x27] @ ''-Severity: Critical'']"
  by code_simp

text \<open>
  C5, amended. The name of a resolved candidate is
  alias-account-service-type-id-metric-Severity: criticality, where a field absent from
  the event is an empty segment and a null field the segment \<open>None\<close>. The quoted
  qualifier stands after the metric exactly when the dimension list that
  \<^verbatim>\<open>get_table_item\<close> built for the candidate has a dimension named \<^verbatim>\<open>path\<close> or
  \<^verbatim>\<open>LogicalDisk\<close> and the value of the first such dimension is not empty; the
  qualifier is that value. That list holds every dimension of the record that has a value
  after binding, bound or still a placeholder, followed by the dimensions of the disk; it
  is the list before the handler's sweep.
\<close>

theorem alarm_name_format:
  assumes "get_table_item cfg cat svc m tok raw ident rid ev disk = Inr (Some item)"
  shows "alarm_name item = spec_alarm_name ev item (disk_qualifier (dimensions item))"
  using assms by (rule candidate_name)

theorem alarm_name_format_witness:
  "map_sum id (map_option alarm_name)
     (get_table_item seed_config seed_catalog ''EC2'' ''disk_used_percent'' ''P1'' (VStr ''true'')
        ''InstanceId'' ''i-123'' base_event (Some data_disk)) =
     Inr (Some (''acme-111122223333-ec2-instance-i-123-disk_used_percent-'' @ [CHR 0x27] @
                ''/data'' @ [CHR 0x27] @ ''-Severity: Critical''))"
proof -
  let ?G = "get_table_item seed_config seed_catalog ''EC2'' ''disk_used_percent'' ''P1''
              (VStr ''true'') ''InstanceId'' ''i-123'' base_event (Some data_disk)"
  have e: "map_sum id (map_option dimensions) ?G =
             Inr (Some [\<lparr>Name = Some ''InstanceId'', Value = Some ''i-123''\<rparr>,
                        \<lparr>Name = Some ''InstanceType'', Value = Some ''InstanceType''\<rparr>,
                        \<lparr>Name = Some ''ImageId'', Value = Some ''ImageId''\<rparr>,
                        \<lparr>Name = Some ''AutoScalingGroup'', Value = Some ''AutoScalingGroup''\<rparr>,
                        \<lparr>Name = Some ''device'', Value = Some ''xvda1''\<rparr>,
                        \<lparr>Name = Some ''fstype'', Value = Some ''ext4''\<rparr>,
                        \<lparr>Name = Some ''path'', Value = Some ''/data''\<rparr>])"
    by code_simp
  have f: "map_sum id (map_option metric) ?G = Inr (Some ''disk_used_percent'')"
    by code_simp
  have c: "map_sum id (map_option criticality) ?G = Inr (Some (VStr ''Critical''))"
    by code_simp
  from e obtain item where g: "?G = Inr (Some item)"
    by (cases ?G) (auto simp: map_option_case split: option.splits)
  from alarm_name_format [OF g] e f c g
  show ?thesis
    by (simp add: spec_alarm_name_def disk_qualifier_def is_disk_dimension_def
          base_event_def get_or_empty_def)
qed

text \<open>
  C8 as stated fails: a dimension of the record that carries a value of its own and is
  named neither like the identifier nor like a key of the metadata stays in the candidate.
\<close>

theorem literal_dimension_counterexample:
  "map_sum id (map dimensions)
     (lambda_handler seed_config literal_catalog offline literal_event) =
     Inr [[\<lparr>Name = Some ''InstanceId'', Value = Some ''i-123''\<rparr>,
           \<lparr>Name = Some ''Currency'', Value = Some ''USD''\<rparr>]] \<and>
   ''Currency'' \<noteq> ''InstanceId'' \<and> map_of (ev_metadata literal_event) ''Currency'' = None"
  by code_simp

text \<open>
  C8, amended. For a dimension of the record: if its name is the identifier it is bound
  to the resource id, also when the metadata has that name; otherwise, if its name is a key
  of the metadata, it is bound to the metadata's value; otherwise it is in the candidate's
  list as it stands when it carries a value, and is dropped when it carries none. Every
  dimension of the candidate carries a value.
\<close>

theorem dimension_binding:
  assumes "get_table_item cfg cat svc m tok raw ident rid ev disk = Inr (Some item)"
    and "cat svc m = Some ti"
    and "DictEntry d \<in> set (tbl_dimensions ti)"
  shows "(Name d = Some ident \<longrightarrow> d\<lparr>Value := Some rid\<rparr> \<in> set (dimensions item)) \<and>
         (\<forall>n v. Name d = Some n \<and> n \<noteq> ident \<and> map_of (ev_metadata ev) n = Some v \<longrightarrow>
                d\<lparr>Value := Some v\<rparr> \<in> set (dimensions item)) \<and>
         (Name d \<noteq> Some ident \<and> (\<forall>n. Name d = Some n \<longrightarrow> map_of (ev_metadata ev) n = None) \<longrightarrow>
                (d \<in> set (dimensions item) \<longleftrightarrow> Value d \<noteq> None)) \<and>
         (\<forall>d'\<in>set (dimensions item). Value d' \<noteq> None)"
proof -
  let ?b = "base_item cfg ti svc m tok raw ident rid ev disk"
  from get_table_item_result [OF assms(1) assms(2)]
  have dims: "dimensions item = dimensions ?b" by auto
  have split: "set (dimensions ?b) =
      set (bind_dimensions ident rid (ev_metadata ev) (tbl_dimensions ti)) \<union>
      set (disk_dimensions cfg m disk)"
    by (simp add: base_item_def)
  have a: "Name d = Some ident \<Longrightarrow> d\<lparr>Value := Some rid\<rparr> \<in> set (dimensions ?b)"
  proof -
    assume "Name d = Some ident"
    then have "bind_dimension ident rid (ev_metadata ev) d = d\<lparr>Value := Some rid\<rparr>"
      by (simp add: bind_dimension_def)
    with assms(3) show ?thesis
      unfolding split bind_dimensions_set by force
  qed
  have b: "Name d = Some n \<Longrightarrow> n \<noteq> ident \<Longrightarrow> map_of (ev_metadata ev) n = Some v \<Longrightarrow>
           d\<lparr>Value := Some v\<rparr> \<in> set (dimensions ?b)" for n v
  proof -
    assume "Name d = Some n" "n \<noteq> ident" "map_of (ev_metadata ev) n = Some v"
    then have "bind_dimension ident rid (ev_metadata ev) d = d\<lparr>Value := Some v\<rparr>"
      by (simp add: bind_dimension_def)
    with assms(3) show ?thesis
      unfolding split bind_dimensions_set by force
  qed
  have c: "Name d \<noteq> Some ident \<Longrightarrow> \<forall>n. Name d = Some n \<longrightarrow> map_of (ev_metadata ev) n = None \<Longrightarrow>
           (d \<in> set (dimensions ?b) \<longleftrightarrow> Value d \<noteq> None)"
  proof -
    assume n: "Name d \<noteq> Some ident" "\<forall>n. Name d = Some n \<longrightarrow> map_of (ev_metadata ev) n = None"
    then have same: "bind_dimension ident rid (ev_metadata ev) d = d"
      by (auto simp: bind_dimension_def split: option.splits)
    show ?thesis
    proof
      assume "d \<in> set (dimensions ?b)"
      then show "Value d \<noteq> None" using base_item_values by blast
    next
      assume "Value d \<noteq> None"
      with same assms(3) show "d \<in> set (dimensions ?b)"
        unfolding split bind_dimensions_set by force
    qed
  qed
  have e: "\<forall>d'\<in>set (dimensions ?b). Value d' \<noteq> None"
    using base_item_values by blast
  from a b c e show ?thesis unfolding dims by blast
qed

theorem dimension_binding_witness:
  "DictEntry \<lparr>Name = Some ''InstanceType'', Value = Some ''InstanceType''\<rparr>
     \<in> set (tbl_dimensions mem_template) \<and>
   map_sum id (map_option dimensions)
     (get_table_item seed_config seed_catalog ''EC2'' ''mem_used_percent'' ''P1'' (VStr ''true'')
        ''InstanceId'' ''i-123'' typed_event None) =
     Inr (Some [\<lparr>Name = Some ''InstanceId'', Value = Some ''i-123''\<rparr>,
                \<lparr>Name = Some ''InstanceType'', Value = Some ''t3.micro''\<rparr>,
                \<lparr>Name = Some ''ImageId'', Value = Some ''ImageId''\<rparr>,
                \<lparr>Name = Some ''AutoScalingGroup'', Value = Some ''AutoScalingGroup''\<rparr>]) \<and>
   \<lparr>Name = Some ''InstanceType'', Value = Some ''t3.micro''\<rparr>
     \<in> set [\<lparr>Name = Some ''InstanceId'', Value = Some ''i-123''\<rparr>,
            \<lparr>Name = Some ''InstanceType'', Value = Some ''t3.micro''\<rparr>,
            \<lparr>Name = Some ''ImageId'', Value = Some ''ImageId''\<rparr>,
            \<lparr>Name = Some ''AutoScalingGroup'', Value = Some ''AutoScalingGroup''\<rparr>]"
proof -
  let ?G = "get_table_item seed_config seed_catalog ''EC2'' ''mem_used_percent'' ''P1''
              (VStr ''true'') ''InstanceId'' ''i-123'' typed_event None"
  let ?d = "\<lparr>Name = Some ''InstanceType'', Value = Some ''InstanceType''\<rparr>"
  have e: "map_sum id (map_option dimensions) ?G =
     Inr (Some [\<lparr>Name = Some ''InstanceId'', Value = Some ''i-123''\<rparr>,
                \<lparr>Name = Some ''InstanceType'', Value = Some ''t3.micro''\<rparr>,
                \<lparr>Name = Some ''ImageId'', Value = Some ''ImageId''\<rparr>,
                \<lparr>Name = Some ''AutoScalingGroup'', Value = Some ''AutoScalingGroup''\<rparr>])"
    by code_simp
  from e obtain item where g: "?G = Inr (Some item)"
    by (cases ?G) (auto simp: map_option_case split: option.splits)
  have t: "seed_catalog ''EC2'' ''mem_used_percent'' = Some mem_template"
    by (simp add: seed_catalog_def)
  have m: "DictEntry ?d \<in> set (tbl_dimensions mem_template)"
    by (simp add: mem_template_def placeholder_def)
  have md: "map_of (ev_metadata typed_event) ''InstanceType'' = Some ''t3.micro''"
    by (simp add: typed_event_def)
  from dimension_binding [OF g t m] md
  have "?d\<lparr>Value := Some ''t3.micro''\<rparr> \<in> set (dimensions item)" by simp
  with e g m show ?thesis by simp
qed

section \<open>Missing context\<close>











section \<open>Fan-out over the discovered disks\<close>









section \<open>Waiting for the disk command\<close>

text \<open>
  The polling wait of \<^verbatim>\<open>configure_ec2\<close>: with a positive poll interval it returns,
  and what it returns is a response with a terminal status, the time-out error at the
  deadline, or the error of a failed read other than a command not yet registered.
\<close>

lemma wait_loop_returns:
  assumes "0 < poll"
  shows "\<exists>r. wait_loop ssm cid iid deadline poll now = Some r"
proof (induction "deadline - now" arbitrary: now rule: less_induct)
  case less
  show ?case
  proof (cases "now < deadline")
    case False
    then show ?thesis by (subst wait_loop.simps) simp
  next
    case True
    with assms have "deadline - (now + poll) < deadline - now" by arith
    from less [OF this] obtain r where
      "wait_loop ssm cid iid deadline poll (now + poll) = Some r" by blast
    with True show ?thesis
      by (subst wait_loop.simps) (auto split: sum.splits)
  qed
qed

lemma wait_loop_terminal:
  assumes "0 < poll" and "wait_loop ssm cid iid deadline poll now = Some (Inr resp)"
  shows "Status resp \<in> {''Success'', ''Failed'', ''Cancelled'', ''TimedOut''}"
  using assms(2)
proof (induction "deadline - now" arbitrary: now rule: less_induct)
  case less
  show ?case
  proof (cases "now < deadline")
    case False
    with less.prems show ?thesis by (subst (asm) wait_loop.simps) simp
  next
    case True
    with assms(1) have d: "deadline - (now + poll) < deadline - now" by arith
    from less.prems True show ?thesis
      by (subst (asm) wait_loop.simps)
         (auto split: sum.splits if_splits dest: less.hyps [OF d])
  qed
qed

lemma discover_disks_reads_once:
  assumes "send_command s1 = send_command s2"
    and "\<forall>cid. get_command_invocation s1 cid iid 5 = get_command_invocation s2 cid iid 5"
  shows "discover_disks s1 iid os_type = discover_disks s2 iid os_type"
  using assms by (simp add: discover_disks_def Let_def split: sum.splits)

lemma discover_disks_without_output:
  assumes "\<And>doc cmd cid out.
             send_command session iid doc cmd = Inr cid \<Longrightarrow>
             get_command_invocation session cid iid 5 = Inr out \<Longrightarrow>
             StandardOutputContent out = None \<or> StandardOutputContent out = Some []"
  shows "discover_disks session iid os_type = []"
proof -
  define cmd where "cmd = (if lower os_type = ''linux'' then linux_cmd else windows_cmd)"
  define doc where
    "doc = (if lower os_type = ''linux'' then ''AWS-RunShellScript''
            else ''AWS-RunPowerShellScript'')"
  show ?thesis
  proof (cases "send_command session iid doc cmd")
    case (Inl e)
    then show ?thesis
      by (simp add: discover_disks_def Let_def cmd_def doc_def)
  next
    case (Inr cid)
    show ?thesis
    proof (cases "get_command_invocation session cid iid 5")
      case (Inl e)
      with Inr show ?thesis
        by (simp add: discover_disks_def Let_def cmd_def doc_def)
    next
      case (Inr out)
      from assms [OF \<open>send_command session iid doc cmd = Inr cid\<close> Inr]
      have "splitlines (case StandardOutputContent out of None \<Rightarrow> [] | Some r \<Rightarrow> r) = []"
        by (auto simp: splitlines_def)
      with Inr \<open>send_command session iid doc cmd = Inr cid\<close> show ?thesis
        by (simp add: discover_disks_def Let_def cmd_def doc_def)
    qed
  qed
qed

lemma handler_without_disks:
  assumes "handler_disks session ev = Inr []"
  shows "lambda_handler cfg cat session ev =
           (case get_alarms cfg cat ev [] of Inl e \<Rightarrow> Inl e | Inr alarms \<Rightarrow> sweep_alarms alarms)"
  using assms by (simp add: lambda_handler_def)

text \<open>
  C7. \<^verbatim>\<open>discover_disks\<close> sleeps five seconds and reads the invocation once. For a command
  that is still running then and succeeds after ten seconds, well before a deadline of
  180 seconds, it returns no disk, and the handler emits the CPU alarm alone; the polling
  wait on the same session returns the finished command, whose output lists one disk.
\<close>

theorem single_read_misses_completion:
  "discover_disks slow_session (Some ''i-123'') ''Linux'' = [] \<and>
   wait_for_command slow_session ''cmd-1'' (Some ''i-123'') 180 5 =
     Some (Inr \<lparr>Status = ''Success'',
                 StandardOutputContent = Some (''/dev/xvda1 ext4 /data'' @ [CHR 0x0A])\<rparr>) \<and>
   parse_lines ''Linux'' (splitlines (''/dev/xvda1 ext4 /data'' @ [CHR 0x0A])) = [data_disk] \<and>
   map_sum id (map alarm_name)
     (lambda_handler seed_config seed_catalog slow_session disk_event) =
     Inr [''acme-111122223333-ec2-instance-i-123-CPUUtilization-Severity: Critical'']"
proof -
  have a: "discover_disks slow_session (Some ''i-123'') ''Linux'' = []"
    by code_simp
  have b: "wait_for_command slow_session ''cmd-1'' (Some ''i-123'') 180 5 =
     Some (Inr \<lparr>Status = ''Success'',
                 StandardOutputContent = Some (''/dev/xvda1 ext4 /data'' @ [CHR 0x0A])\<rparr>)"
    by (simp add: wait_for_command_def wait_loop.simps slow_session_def)
  have c: "parse_lines ''Linux'' (splitlines (''/dev/xvda1 ext4 /data'' @ [CHR 0x0A])) =
             [data_disk]"
    by code_simp
  have d: "map_sum id (map alarm_name)
     (lambda_handler seed_config seed_catalog slow_session disk_event) =
     Inr [''acme-111122223333-ec2-instance-i-123-CPUUtilization-Severity: Critical'']"
    by code_simp
  from a b c d show ?thesis by blast
qed

end
